theory Spec2Isabelle
  imports Complex_Main "HOL-Library.Multiset" "HOL-Library.List_Lexorder" "HOL-Library.Char_ord"
begin

section \<open>Conventions of the embedding\<close>

text \<open>
  The Go sources are embedded function by function. A method with a pointer receiver
  takes the receiver's value and returns the updated value. A \<^verbatim>\<open>float64\<close> is
  modelled as a \<^typ>\<open>real\<close> (infinities and NaN are left out). Rounding is left
  out of the reputation and market arithmetic; it is modelled in the one place where a
  \<^verbatim>\<open>float64\<close> is converted to an integer that decides a result, the number of
  votes that \<^verbatim>\<open>CheckConsensus\<close> requires. An
  \<^verbatim>\<open>int\<close> as an \<^typ>\<open>int\<close>, a \<^verbatim>\<open>time.Time\<close> as a number of
  nanoseconds since the epoch and a \<^verbatim>\<open>time.Duration\<close> as a number of nanoseconds.
  Values that the source draws from its environment (\<^verbatim>\<open>time.Now()\<close>,
  \<^verbatim>\<open>uuid.New()\<close>, key generation, the iteration order of a Go map, the random
  shuffle) are arguments of the model. The clock readings that one call of a method of
  the reputation registry or of the consensus engine takes are one argument
  \<open>now\<close>. Every lock is held for a whole method body, so each method that locks
  once is one atomic step of the model. \<^verbatim>\<open>AssignTask\<close> takes the lock of the
  market several times and sleeps in between; the calls of other goroutines that run
  in between are arguments of its model.
\<close>

type_synonym Time = int
type_synonym Duration = int

definition Nanosecond :: Duration where "Nanosecond = 1"
definition Second :: Duration where "Second = 1000000000"
definition Minute :: Duration where "Minute = 60 * Second"
definition Hour :: Duration where "Hour = 60 * Minute"

text \<open>\<^verbatim>\<open>Duration.Hours()\<close>: the duration as a floating point number of hours.\<close>

definition Hours :: "Duration \<Rightarrow> real" where
  "Hours d = real_of_int d / real_of_int Hour"

text \<open>Conversion of a \<^verbatim>\<open>float64\<close> to an integer type truncates towards zero.\<close>

definition trunc :: "real \<Rightarrow> int" where
  "trunc x = (if 0 \<le> x then \<lfloor>x\<rfloor> else \<lceil>x\<rceil>)"

datatype error =
    ErrKeyGeneration
  | ErrTaskNotFound
  | ErrNoBids
  | ErrMarketClosed
  | ErrProposalNotFound
  | ErrConsensusReached
  | ErrInvalidState
  | PanicIndexOutOfRange

section \<open>pkg/identity/sid.go\<close>

record SquaremindIdentity =
  SID :: string
  PublicKey :: "nat list"
  PrivateKey :: "nat list"
  Name :: string
  CreatedAt :: Time
  ParentSID :: string
  Generation :: int

text \<open>
  \<^verbatim>\<open>NewSquaremindIdentity(name, parentSID)\<close>. The outcome of
  \<^verbatim>\<open>ed25519.GenerateKey\<close>, the fresh uuid and the clock reading are arguments.
\<close>

definition NewSquaremindIdentity ::
  "string \<Rightarrow> string \<Rightarrow> (error + nat list \<times> nat list) \<Rightarrow> string \<Rightarrow> Time
     \<Rightarrow> error + SquaremindIdentity" where
  "NewSquaremindIdentity name parentSID keygen uuid now =
     (case keygen of
        Inl err \<Rightarrow> Inl err
      | Inr (pub, priv) \<Rightarrow>
          (let generation = (if parentSID \<noteq> [] then 1 else 0)
           in Inr \<lparr> SID = uuid, PublicKey = pub, PrivateKey = priv, Name = name,
                    CreatedAt = now, ParentSID = parentSID, Generation = generation \<rparr>))"

section \<open>pkg/identity/capabilities.go\<close>

datatype CapabilityType =
    CapCodeWrite
  | CapCodeReview
  | CapCodeRefactor
  | CapResearch
  | CapAnalysis
  | CapSecurity
  | CapDocumentation
  | CapTesting
  | CapArchitecture

record Capability =
  cap_Type :: CapabilityType
  Proficiency :: real

text \<open>A \<^verbatim>\<open>CapabilitySet\<close> wraps the map from capability type to capability.\<close>

type_synonym CapabilitySet = "CapabilityType \<rightharpoonup> Capability"

definition NewCapabilitySet :: CapabilitySet where
  "NewCapabilitySet = Map.empty"

definition Add :: "CapabilitySet \<Rightarrow> Capability \<Rightarrow> CapabilitySet" where
  "Add cs cap = cs(cap_Type cap \<mapsto> cap)"

definition Has :: "CapabilitySet \<Rightarrow> CapabilityType \<Rightarrow> bool" where
  "Has cs capType = (cs capType \<noteq> None)"

definition Get :: "CapabilitySet \<Rightarrow> CapabilityType \<Rightarrow> Capability option" where
  "Get cs capType = cs capType"

text \<open>
  The loop of \<^verbatim>\<open>MatchScore\<close> over the required capabilities, threading
  \<^verbatim>\<open>totalScore\<close> and \<^verbatim>\<open>matched\<close>.
\<close>

fun matchLoop :: "CapabilitySet \<Rightarrow> CapabilityType list \<Rightarrow> real \<times> nat \<Rightarrow> real \<times> nat" where
  "matchLoop cs [] acc = acc"
| "matchLoop cs (req # reqs) (totalScore, matched) =
     (case Get cs req of
        Some cap \<Rightarrow> matchLoop cs reqs (totalScore + Proficiency cap, matched + 1)
      | None \<Rightarrow> matchLoop cs reqs (totalScore, matched))"

definition MatchScore :: "CapabilitySet \<Rightarrow> CapabilityType list \<Rightarrow> real" where
  "MatchScore cs required =
     (if length required = 0 then 1
      else (case matchLoop cs required (0, 0) of
              (totalScore, matched) \<Rightarrow>
                if matched = 0 then 0
                else (let coverage = real matched / real (length required);
                          avgProficiency = totalScore / real matched
                      in coverage * avgProficiency)))"

section \<open>pkg/agent: reputation and tasks\<close>

datatype TaskStatus = TaskPending | TaskAssigned | TaskRunning | TaskCompleted | TaskFailed

record Task =
  task_ID :: string
  Description :: string
  Requirements :: string
  Complexity :: string
  Required :: "CapabilityType list"
  Deadline :: Time
  Reward :: real
  Status :: TaskStatus
  AssignedTo :: string
  task_CreatedAt :: Time

record Reputation =
  Overall :: real
  Reliability :: real
  Quality :: real
  Cooperation :: real
  Honesty :: real
  TasksCompleted :: int
  TasksFailed :: int
  LastActive :: Time
  DecayRate :: real

definition NewReputation :: "Time \<Rightarrow> Reputation" where
  "NewReputation now =
     \<lparr> Overall = 50, Reliability = 50, Quality = 50, Cooperation = 50, Honesty = 50,
       TasksCompleted = 0, TasksFailed = 0, LastActive = now, DecayRate = 0.01 \<rparr>"

definition recalculateOverall :: "Reputation \<Rightarrow> Reputation" where
  "recalculateOverall r =
     r\<lparr>Overall := (Reliability r + Quality r + Cooperation r + Honesty r) / 4\<rparr>"

definition RecordSuccess :: "Time \<Rightarrow> real \<Rightarrow> Reputation \<Rightarrow> Reputation" where
  "RecordSuccess now quality r =
     (let r1 = r\<lparr>TasksCompleted := TasksCompleted r + 1\<rparr>;
          r2 = r1\<lparr>Quality := Quality r1 * 0.9 + quality * 100 * 0.1\<rparr>;
          r3 = r2\<lparr>Reliability := Reliability r2 * 0.95 + 100 * 0.05\<rparr>;
          r4 = recalculateOverall r3
      in r4\<lparr>LastActive := now\<rparr>)"

definition RecordFailure :: "Time \<Rightarrow> Reputation \<Rightarrow> Reputation" where
  "RecordFailure now r =
     (let r1 = r\<lparr>TasksFailed := TasksFailed r + 1\<rparr>;
          r2 = r1\<lparr>Reliability := Reliability r1 * 0.9\<rparr>;
          r3 = recalculateOverall r2
      in r3\<lparr>LastActive := now\<rparr>)"

definition RecordCooperation :: "real \<Rightarrow> Reputation \<Rightarrow> Reputation" where
  "RecordCooperation score r =
     recalculateOverall (r\<lparr>Cooperation := Cooperation r * 0.9 + score * 100 * 0.1\<rparr>)"

text \<open>
  \<^verbatim>\<open>ApplyDecay\<close>: \<^verbatim>\<open>time.Since(r.LastActive)\<close> is the difference between the
  clock reading and \<^verbatim>\<open>LastActive\<close>.
\<close>

definition daysSinceActive :: "Time \<Rightarrow> Reputation \<Rightarrow> real" where
  "daysSinceActive now r = Hours (now - LastActive r) / 24"

definition ApplyDecay :: "Time \<Rightarrow> Reputation \<Rightarrow> Reputation" where
  "ApplyDecay now r =
     (if daysSinceActive now r > 1 then
        (let decayFactor0 = 1.0 - (DecayRate r * daysSinceActive now r);
             decayFactor = (if decayFactor0 < 0.5 then 0.5 else decayFactor0)
         in r\<lparr>Overall := Overall r * decayFactor\<rparr>)
      else r)"

section \<open>pkg/agent/agent.go\<close>

datatype AgentState =
  StateInitializing | StateIdle | StateWorking | StatePaused | StateTerminated

record Agent =
  Identity :: SquaremindIdentity
  Capabilities :: CapabilitySet
  State :: AgentState
  CurrentTask :: "Task option"
  agent_Reputation :: Reputation
  StartedAt :: Time
  agent_LastActive :: Time

definition GetState :: "Agent \<Rightarrow> AgentState" where
  "GetState a = State a"

text \<open>
  \<^verbatim>\<open>Start\<close>, \<^verbatim>\<open>terminate\<close>, \<^verbatim>\<open>Pause\<close> and \<^verbatim>\<open>Resume\<close>. In the
  source \<^verbatim>\<open>Pause\<close> and \<^verbatim>\<open>Resume\<close> are declared without a result, so a call has
  no way to report an error. The model pairs the updated agent with the error a
  call reports, which is \<^term>\<open>None\<close> on every path.
\<close>

definition Start :: "Agent \<Rightarrow> error option \<times> Agent" where
  "Start a = (None, a\<lparr>State := StateIdle\<rparr>)"

definition terminate :: "Agent \<Rightarrow> Agent" where
  "terminate a = a\<lparr>State := StateTerminated\<rparr>"

definition Pause :: "Agent \<Rightarrow> error option \<times> Agent" where
  "Pause a = (if State a = StateIdle then (None, a\<lparr>State := StatePaused\<rparr>) else (None, a))"

definition Resume :: "Agent \<Rightarrow> error option \<times> Agent" where
  "Resume a = (if State a = StatePaused then (None, a\<lparr>State := StateIdle\<rparr>) else (None, a))"

section \<open>pkg/coordination/reputation.go\<close>

record ReputationEvent =
  ev_AgentSID :: string
  ev_Type :: string
  Delta :: real
  Reason :: string
  ev_Timestamp :: Time

record ReputationRegistry =
  scores :: "string \<rightharpoonup> Reputation"
  history :: "string \<rightharpoonup> ReputationEvent list"

text \<open>Reading a missing key of \<^verbatim>\<open>history\<close> gives the nil slice.\<close>

definition historyOf :: "ReputationRegistry \<Rightarrow> string \<Rightarrow> ReputationEvent list" where
  "historyOf r sid = (case history r sid of None \<Rightarrow> [] | Some es \<Rightarrow> es)"

definition NewReputationRegistry :: ReputationRegistry where
  "NewReputationRegistry = \<lparr> scores = Map.empty, history = Map.empty \<rparr>"

definition Register :: "string \<Rightarrow> Reputation \<Rightarrow> ReputationRegistry \<Rightarrow> ReputationRegistry" where
  "Register sid rep r = r\<lparr>scores := (scores r)(sid \<mapsto> rep), history := (history r)(sid \<mapsto> [])\<rparr>"

definition Unregister :: "string \<Rightarrow> ReputationRegistry \<Rightarrow> ReputationRegistry" where
  "Unregister sid r = r\<lparr>scores := (scores r)(sid := None), history := (history r)(sid := None)\<rparr>"

definition reg_Get :: "ReputationRegistry \<Rightarrow> string \<Rightarrow> Reputation option" where
  "reg_Get r sid = scores r sid"

definition Update :: "string \<Rightarrow> Reputation \<Rightarrow> ReputationRegistry \<Rightarrow> ReputationRegistry" where
  "Update sid rep r = r\<lparr>scores := (scores r)(sid \<mapsto> rep)\<rparr>"

definition RecordTaskSuccess ::
  "Time \<Rightarrow> string \<Rightarrow> real \<Rightarrow> ReputationRegistry \<Rightarrow> ReputationRegistry" where
  "RecordTaskSuccess now sid quality r =
     (case scores r sid of
        None \<Rightarrow> r
      | Some rep \<Rightarrow>
          (let oldOverall = Overall rep;
               rep' = RecordSuccess now quality rep;
               event = \<lparr> ev_AgentSID = sid, ev_Type = ''task_success'',
                         Delta = Overall rep' - oldOverall,
                         Reason = ''Task completed successfully'', ev_Timestamp = now \<rparr>;
               h1 = historyOf r sid @ [event];
               h2 = (if length h1 > 100 then drop (length h1 - 100) h1 else h1)
           in r\<lparr>scores := (scores r)(sid \<mapsto> rep'), history := (history r)(sid \<mapsto> h2)\<rparr>))"

definition RecordTaskFailure :: "Time \<Rightarrow> string \<Rightarrow> ReputationRegistry \<Rightarrow> ReputationRegistry" where
  "RecordTaskFailure now sid r =
     (case scores r sid of
        None \<Rightarrow> r
      | Some rep \<Rightarrow>
          (let oldOverall = Overall rep;
               rep' = RecordFailure now rep;
               event = \<lparr> ev_AgentSID = sid, ev_Type = ''task_failure'',
                         Delta = Overall rep' - oldOverall,
                         Reason = ''Task failed'', ev_Timestamp = now \<rparr>
           in r\<lparr>scores := (scores r)(sid \<mapsto> rep'),
                history := (history r)(sid \<mapsto> historyOf r sid @ [event])\<rparr>))"

definition RecordPeerRating ::
  "Time \<Rightarrow> string \<Rightarrow> string \<Rightarrow> real \<Rightarrow> ReputationRegistry \<Rightarrow> ReputationRegistry" where
  "RecordPeerRating now sid raterSID rating r =
     (case scores r sid of
        None \<Rightarrow> r
      | Some rep \<Rightarrow>
          (case scores r raterSID of
             None \<Rightarrow> r
           | Some raterRep \<Rightarrow>
               if Overall raterRep < 30 then r
               else
                 (let oldOverall = Overall rep;
                      weight = Overall raterRep / 100;
                      rep1 = rep\<lparr>Cooperation := Cooperation rep * 0.9 + rating * 100 * 0.1 * weight\<rparr>;
                      rep2 = rep1\<lparr>Overall :=
                               (Reliability rep1 + Quality rep1 + Cooperation rep1 + Honesty rep1) / 4\<rparr>;
                      event = \<lparr> ev_AgentSID = sid, ev_Type = ''peer_rating'',
                                Delta = Overall rep2 - oldOverall,
                                Reason = ''Rated by peer '' @ raterSID, ev_Timestamp = now \<rparr>
                  in r\<lparr>scores := (scores r)(sid \<mapsto> rep2),
                       history := (history r)(sid \<mapsto> historyOf r sid @ [event])\<rparr>)))"

text \<open>
  \<^verbatim>\<open>ApplyDecayAll\<close> visits every entry of \<^verbatim>\<open>scores\<close> once and touches only
  that entry's reputation and history, so the order of the visit does not matter and
  the loop is the pointwise update of both maps.
\<close>

definition ApplyDecayAll :: "Time \<Rightarrow> ReputationRegistry \<Rightarrow> ReputationRegistry" where
  "ApplyDecayAll now r =
     r\<lparr>scores := (\<lambda>sid. map_option (ApplyDecay now) (scores r sid)),
       history := (\<lambda>sid.
          case scores r sid of
            None \<Rightarrow> history r sid
          | Some rep \<Rightarrow>
              if Overall (ApplyDecay now rep) \<noteq> Overall rep then
                Some (historyOf r sid @
                  [\<lparr> ev_AgentSID = sid, ev_Type = ''decay'',
                     Delta = Overall (ApplyDecay now rep) - Overall rep,
                     Reason = ''Time-based decay'', ev_Timestamp = now \<rparr>])
              else history r sid)\<rparr>"

definition GetHistory :: "ReputationRegistry \<Rightarrow> string \<Rightarrow> ReputationEvent list" where
  "GetHistory r sid = historyOf r sid"

text \<open>The operations of the registry that change a reputation or a history.\<close>

datatype RegistryOp =
    OpSuccess string real
  | OpFailure string
  | OpPeerRating string string real
  | OpDecaySweep

fun applyOp :: "Time \<Rightarrow> RegistryOp \<Rightarrow> ReputationRegistry \<Rightarrow> ReputationRegistry" where
  "applyOp now (OpSuccess sid q) r = RecordTaskSuccess now sid q r"
| "applyOp now (OpFailure sid) r = RecordTaskFailure now sid r"
| "applyOp now (OpPeerRating sid rater rating) r = RecordPeerRating now sid rater rating r"
| "applyOp now OpDecaySweep r = ApplyDecayAll now r"

section \<open>Standard library: sort.Slice\<close>


text \<open>
  On a slice of at most 12 elements the library (Go 1.21, the version of
  \<^verbatim>\<open>go.mod\<close>) runs \<^verbatim>\<open>insertionSortLessFunc\<close>:
  \<^verbatim>\<open>for i := a + 1; i < b; i++ {
    for j := i; j > a && less(j, j-1); j-- { swap(j, j-1) } }\<close>
  \<open>insertLeft\<close> is the inner loop: it moves the new element \<open>x\<close> to the left
  past the elements of the sorted prefix, given nearest first, while \<open>x\<close> is less
  than its left neighbour.
\<close>

fun insertLeft :: "('a \<Rightarrow> 'a \<Rightarrow> bool) \<Rightarrow> 'a \<Rightarrow> 'a list \<Rightarrow> 'a list" where
  "insertLeft lessFn x [] = [x]"
| "insertLeft lessFn x (p # ps) =
     (if lessFn x p then p # insertLeft lessFn x ps else x # p # ps)"

definition insertionSortLessFunc :: "('a \<Rightarrow> 'a \<Rightarrow> bool) \<Rightarrow> 'a list \<Rightarrow> 'a list" where
  "insertionSortLessFunc lessFn xs = rev (foldl (\<lambda>prefix x. insertLeft lessFn x prefix) [] xs)"

section \<open>pkg/coordination/market.go\<close>

record Bid =
  AgentSID :: string
  TaskID :: string
  CapabilityScore :: real
  ReputationStake :: real
  EstimatedTime :: Duration
  Timestamp :: Time

record TaskAssignment =
  asg_TaskID :: string
  asg_AgentSID :: string
  asg_Bid :: Bid

record TaskMarket =
  listings :: "string \<rightharpoonup> Task"
  bids :: "string \<rightharpoonup> Bid list"
  bidTimeout :: Duration
  closed :: bool

definition NewTaskMarket :: TaskMarket where
  "NewTaskMarket =
     \<lparr> listings = Map.empty, bids = Map.empty, bidTimeout = 5 * Second, closed = False \<rparr>"

text \<open>\<^verbatim>\<open>GetBids\<close>: reading a missing key of \<^verbatim>\<open>bids\<close> gives the nil slice.\<close>

definition GetBids :: "TaskMarket \<Rightarrow> string \<Rightarrow> Bid list" where
  "GetBids m taskID = (case bids m taskID of None \<Rightarrow> [] | Some bs \<Rightarrow> bs)"

definition ListTask :: "Task \<Rightarrow> TaskMarket \<Rightarrow> error option \<times> TaskMarket" where
  "ListTask task m =
     (if closed m then (Some ErrMarketClosed, m)
      else (None, m\<lparr>listings := (listings m)(task_ID task \<mapsto> task),
                    bids := (bids m)(task_ID task \<mapsto> [])\<rparr>))"

definition UnlistTask :: "string \<Rightarrow> TaskMarket \<Rightarrow> TaskMarket" where
  "UnlistTask taskID m =
     m\<lparr>listings := (listings m)(taskID := None), bids := (bids m)(taskID := None)\<rparr>"

definition SubmitBid :: "Time \<Rightarrow> Bid \<Rightarrow> TaskMarket \<Rightarrow> error option \<times> TaskMarket" where
  "SubmitBid now bid m =
     (if closed m then (Some ErrMarketClosed, m)
      else if listings m (TaskID bid) = None then (Some ErrTaskNotFound, m)
      else (None, m\<lparr>bids := (bids m)(TaskID bid \<mapsto>
                          GetBids m (TaskID bid) @ [bid\<lparr>Timestamp := now\<rparr>])\<rparr>))"

text \<open>
  \<^verbatim>\<open>estimateTime\<close>. The division is by a capability score that the only caller has
  checked to be above 0.5.
\<close>

definition estimateTime :: "Task \<Rightarrow> real \<Rightarrow> Duration" where
  "estimateTime task capabilityScore =
     (let baseTime =
        (if Complexity task = ''low'' then Minute
         else if Complexity task = ''medium'' then 5 * Minute
         else if Complexity task = ''high'' then 30 * Minute
         else Minute)
      in trunc (real_of_int baseTime / capabilityScore))"

text \<open>
  The composite score that \<^verbatim>\<open>selectBestBid\<close> gives to a bid: capability 40%,
  reputation 40%, stake 20%, with 50 in place of the overall score of an agent that
  the registry does not hold.
\<close>

definition bidScore :: "ReputationRegistry \<Rightarrow> Bid \<Rightarrow> real" where
  "bidScore reputation bid =
     (let repScore = (case reg_Get reputation (AgentSID bid) of
                        None \<Rightarrow> 50.0
                      | Some rep \<Rightarrow> Overall rep)
      in CapabilityScore bid * 0.4 + (repScore / 100) * 0.4 + (ReputationStake bid / 100) * 0.2)"

text \<open>
  \<^verbatim>\<open>selectBestBid\<close>. The sort is called with the comparison
  \<^verbatim>\<open>scored[i].score > scored[j].score\<close>; reading \<^verbatim>\<open>scored[0]\<close> of an empty slice
  would panic.
\<close>

definition selectBestBid ::
  "((Bid \<times> real \<Rightarrow> Bid \<times> real \<Rightarrow> bool) \<Rightarrow> (Bid \<times> real) list \<Rightarrow> (Bid \<times> real) list)
     \<Rightarrow> string \<Rightarrow> ReputationRegistry \<Rightarrow> TaskMarket \<Rightarrow> error + TaskAssignment" where
  "selectBestBid sortSlice taskID reputation m =
     (let bs = GetBids m taskID
      in if length bs = 0 then Inl ErrNoBids
         else
           (let scored = map (\<lambda>bid. (bid, bidScore reputation bid)) bs;
                sorted = sortSlice (\<lambda>x y. snd x > snd y) scored
            in case sorted of
                 [] \<Rightarrow> Inl PanicIndexOutOfRange
               | (winner, score) # rest \<Rightarrow>
                   Inr \<lparr> asg_TaskID = taskID, asg_AgentSID = AgentSID winner,
                         asg_Bid = winner \<rparr>))"

text \<open>
  \<^verbatim>\<open>cleanup\<close> of the market removes the listings whose deadline has passed or
  that are older than one hour, with their bids. The zero \<^verbatim>\<open>time.Time\<close> is the
  first instant of the year 1.
\<close>

definition zeroTime :: Time where
  "zeroTime = - 62135596800 * Second"

definition expired :: "Time \<Rightarrow> Task \<Rightarrow> bool" where
  "expired now task \<longleftrightarrow>
     (Deadline task \<noteq> zeroTime \<and> now > Deadline task) \<or> now - task_CreatedAt task > Hour"

definition market_cleanup :: "Time \<Rightarrow> TaskMarket \<Rightarrow> TaskMarket" where
  "market_cleanup now m =
     m\<lparr>listings := (\<lambda>taskID. case listings m taskID of
                         None \<Rightarrow> None
                       | Some task \<Rightarrow> if expired now task then None else Some task),
       bids := (\<lambda>taskID. case listings m taskID of
                         None \<Rightarrow> bids m taskID
                       | Some task \<Rightarrow> if expired now task then None else bids m taskID)\<rparr>"

definition Close :: "TaskMarket \<Rightarrow> TaskMarket" where
  "Close m = m\<lparr>closed := True\<rparr>"

definition SetBidTimeout :: "Duration \<Rightarrow> TaskMarket \<Rightarrow> TaskMarket" where
  "SetBidTimeout t m = m\<lparr>bidTimeout := t\<rparr>"

text \<open>
  The calls that other goroutines can make on the market while \<^verbatim>\<open>AssignTask\<close>
  does not hold its lock: the exported methods that change it, and the cleanup of the
  maintenance loop.
\<close>

datatype MarketCall =
    CallListTask Task
  | CallUnlistTask string
  | CallSubmitBid Time Bid
  | CallClose
  | CallSetBidTimeout Duration
  | CallCleanup Time

fun doCall :: "MarketCall \<Rightarrow> TaskMarket \<Rightarrow> TaskMarket" where
  "doCall (CallListTask task) m = snd (ListTask task m)"
| "doCall (CallUnlistTask taskID) m = UnlistTask taskID m"
| "doCall (CallSubmitBid now bid) m = snd (SubmitBid now bid m)"
| "doCall CallClose m = Close m"
| "doCall (CallSetBidTimeout t) m = SetBidTimeout t m"
| "doCall (CallCleanup now) m = market_cleanup now m"

definition doCalls :: "MarketCall list \<Rightarrow> TaskMarket \<Rightarrow> TaskMarket" where
  "doCalls calls m = foldl (\<lambda>m' call. doCall call m') m calls"

text \<open>
  The loop of \<^verbatim>\<open>AssignTask\<close> over the agents, in the order in which the Go map
  yields them. \<open>others i\<close> lists the calls of other goroutines that run before
  the loop handles the agent at position \<open>i\<close>. \<open>clock n\<close> is the reading of
  the clock in the call of \<^verbatim>\<open>SubmitBid\<close> number \<open>n\<close> of the loop; the error
  of \<^verbatim>\<open>SubmitBid\<close> is dropped, as in the source.
\<close>

fun bidLoop ::
  "(nat \<Rightarrow> Time) \<Rightarrow> (nat \<Rightarrow> MarketCall list) \<Rightarrow> Task \<Rightarrow> (string \<times> Agent) list
     \<Rightarrow> nat \<Rightarrow> nat \<Rightarrow> TaskMarket \<Rightarrow> TaskMarket" where
  "bidLoop clock others task [] i n m = m"
| "bidLoop clock others task ((sid, a) # rest) i n m =
     (let m0 = doCalls (others i) m
      in if GetState a \<noteq> StateIdle then bidLoop clock others task rest (i + 1) n m0
         else
           (let score = MatchScore (Capabilities a) (Required task)
            in if score > 0.5 then
                 (let bid = \<lparr> AgentSID = sid, TaskID = task_ID task, CapabilityScore = score,
                              ReputationStake = Overall (agent_Reputation a) * 0.1,
                              EstimatedTime = estimateTime task score, Timestamp = 0 \<rparr>
                  in bidLoop clock others task rest (i + 1) (n + 1)
                       (snd (SubmitBid (clock n) bid m0)))
               else bidLoop clock others task rest (i + 1) n m0))"

text \<open>
  \<^verbatim>\<open>AssignTask\<close>. The lock of the market is not held during the sleep for the bid
  collection period: \<open>window\<close> lists the calls of other goroutines that run
  after the loop and before \<^verbatim>\<open>selectBestBid\<close>. The result is paired with the
  market after the call.
\<close>

definition AssignTask ::
  "((Bid \<times> real \<Rightarrow> Bid \<times> real \<Rightarrow> bool) \<Rightarrow> (Bid \<times> real) list \<Rightarrow> (Bid \<times> real) list)
     \<Rightarrow> (nat \<Rightarrow> Time) \<Rightarrow> (nat \<Rightarrow> MarketCall list) \<Rightarrow> MarketCall list
     \<Rightarrow> Task \<Rightarrow> (string \<times> Agent) list \<Rightarrow> ReputationRegistry
     \<Rightarrow> TaskMarket \<Rightarrow> (error + TaskAssignment) \<times> TaskMarket" where
  "AssignTask sortSlice clock others window task agents reputation m =
     (case ListTask task m of
        (Some err, m') \<Rightarrow> (Inl err, m')
      | (None, m1) \<Rightarrow>
          (let m2 = bidLoop clock others task agents 0 0 m1;
               m3 = doCalls window m2
           in (selectBestBid sortSlice (task_ID task) reputation m3, m3)))"

section \<open>Arithmetic of float64\<close>





section \<open>pkg/coordination/consensus.go\<close>

datatype ConsensusType =
    ConsensusTypeTaskAssignment
  | ConsensusTypeAgentSpawn
  | ConsensusTypeAgentTerminate
  | ConsensusTypeParameterChange

record Proposal =
  prop_ID :: string
  prop_Type :: ConsensusType
  Proposer :: string
  Data :: "(string \<times> string) list"
  prop_CreatedAt :: Time

record Vote =
  vote_AgentSID :: string
  ProposalID :: string
  Value :: bool
  vote_Reason :: string
  Signature :: "nat list"
  vote_Timestamp :: Time

text \<open>
  The map \<^verbatim>\<open>Votes\<close> from voter id to vote is a list of entries with one entry per
  voter; its \<^verbatim>\<open>len\<close> is the length of the list. \<^verbatim>\<open>Result\<close> is a Go string.
\<close>

record ConsensusRound =
  round_Proposal :: Proposal
  Votes :: "(string \<times> Vote) list"
  Threshold :: real
  Timeout :: Duration
  round_StartedAt :: Time
  Result :: string

text \<open>
  The callbacks are opaque functions; each is modelled by a name, and starting one
  (\<^verbatim>\<open>go c.onAccept(round.Proposal)\<close>) appends the name and the proposal to
  \<open>callbackLog\<close>.
\<close>

record ConsensusEngine =
  rounds :: "string \<rightharpoonup> ConsensusRound"
  threshold :: real
  timeout :: Duration
  onAccept :: "nat option"
  onReject :: "nat option"
  callbackLog :: "(nat \<times> Proposal) list"


definition SetThreshold :: "real \<Rightarrow> ConsensusEngine \<Rightarrow> ConsensusEngine" where
  "SetThreshold th c = c\<lparr>threshold := th\<rparr>"

definition SetTimeout :: "Duration \<Rightarrow> ConsensusEngine \<Rightarrow> ConsensusEngine" where
  "SetTimeout t c = c\<lparr>timeout := t\<rparr>"

definition OnAccept :: "nat \<Rightarrow> ConsensusEngine \<Rightarrow> ConsensusEngine" where
  "OnAccept callback c = c\<lparr>onAccept := Some callback\<rparr>"

definition OnReject :: "nat \<Rightarrow> ConsensusEngine \<Rightarrow> ConsensusEngine" where
  "OnReject callback c = c\<lparr>onReject := Some callback\<rparr>"








definition GetRound :: "ConsensusEngine \<Rightarrow> string \<Rightarrow> ConsensusRound option" where
  "GetRound c proposalID = rounds c proposalID"

section \<open>pkg/coordination/gossip.go\<close>

datatype MessageType =
    MsgAgentJoined
  | MsgAgentLeft
  | MsgTaskAvailable
  | MsgTaskBid
  | MsgTaskAssigned
  | MsgTaskCompleted
  | MsgHeartbeat
  | MsgConsensus

record Message =
  msg_ID :: string
  msg_Type :: MessageType
  From :: string
  Payload :: string
  msg_Timestamp :: Time
  TTL :: int

text \<open>
  The maps \<^verbatim>\<open>peers\<close> and \<^verbatim>\<open>seen\<close> only ever hold the value true, so each is
  the set of its keys. A handler is an opaque function, modelled by a name; calling the
  handler registered at position \<open>i\<close> for a message type appends the type, the
  position, the name and the message to \<open>invoked\<close>. \<open>msgChan\<close> is the content
  of the buffered channel, oldest first. \<open>inflight\<close> holds the messages of the
  goroutines that \<^verbatim>\<open>sendTo\<close> has started and that have not yet tried to write to
  the channel.
\<close>

record GossipProtocol =
  peers :: "string set"
  seen :: "string set"
  handlers :: "MessageType \<Rightarrow> nat list"
  fanout :: int
  interval :: Duration
  msgChan :: "Message list"
  inflight :: "Message list"
  invoked :: "(MessageType \<times> nat \<times> nat \<times> Message) list"

definition NewGossipProtocol :: GossipProtocol where
  "NewGossipProtocol =
     \<lparr> peers = {}, seen = {}, handlers = (\<lambda>t. []), fanout = 3,
       interval = 100 * 1000000, msgChan = [], inflight = [], invoked = [] \<rparr>"

definition AddPeer :: "string \<Rightarrow> GossipProtocol \<Rightarrow> GossipProtocol" where
  "AddPeer sid g = g\<lparr>peers := insert sid (peers g)\<rparr>"

definition RemovePeer :: "string \<Rightarrow> GossipProtocol \<Rightarrow> GossipProtocol" where
  "RemovePeer sid g = g\<lparr>peers := peers g - {sid}\<rparr>"

definition OnMessage :: "MessageType \<Rightarrow> nat \<Rightarrow> GossipProtocol \<Rightarrow> GossipProtocol" where
  "OnMessage msgType handler g = g\<lparr>handlers := (handlers g)(msgType := handlers g msgType @ [handler])\<rparr>"

text \<open>A send on the channel of capacity 1000 inside \<^verbatim>\<open>select\<close> with a default case.\<close>

definition trySend :: "Message \<Rightarrow> GossipProtocol \<Rightarrow> GossipProtocol" where
  "trySend msg g = (if length (msgChan g) < 1000 then g\<lparr>msgChan := msgChan g @ [msg]\<rparr> else g)"

definition Broadcast :: "string \<Rightarrow> Time \<Rightarrow> Message \<Rightarrow> GossipProtocol \<Rightarrow> GossipProtocol" where
  "Broadcast uuid now msg g =
     (let msg1 = msg\<lparr>msg_ID := uuid, msg_Timestamp := now\<rparr>;
          msg2 = (if TTL msg1 = 0 then msg1\<lparr>TTL := 10\<rparr> else msg1)
      in trySend msg2 g)"

definition sendTo :: "string \<Rightarrow> Message \<Rightarrow> GossipProtocol \<Rightarrow> GossipProtocol" where
  "sendTo sid msg g = g\<lparr>inflight := inflight g @ [msg]\<rparr>"

text \<open>
  \<^verbatim>\<open>forward\<close>. \<open>order\<close> lists the peer ids in the order in which the iteration
  over the map, followed by the shuffle when there are more candidates than the fanout,
  leaves them.
\<close>

definition forward :: "string list \<Rightarrow> Message \<Rightarrow> GossipProtocol \<Rightarrow> GossipProtocol" where
  "forward order msg g =
     (let candidates = filter (\<lambda>sid. sid \<in> peers g \<and> sid \<noteq> From msg) order;
          targets = (if int (length candidates) \<le> fanout g then candidates
                     else take (nat (fanout g)) candidates)
      in foldl (\<lambda>g' sid. sendTo sid msg g') g targets)"

definition handleMessage :: "string list \<Rightarrow> Message \<Rightarrow> GossipProtocol \<Rightarrow> GossipProtocol" where
  "handleMessage order msg g =
     (if msg_ID msg \<in> seen g then g
      else
        (let g1 = g\<lparr>seen := insert (msg_ID msg) (seen g)\<rparr>;
             hs = handlers g1 (msg_Type msg);
             g2 = g1\<lparr>invoked := invoked g1 @
                    map (\<lambda>(i, h). (msg_Type msg, i, h, msg)) (zip [0..<length hs] hs)\<rparr>
         in if TTL msg > 0 then forward order (msg\<lparr>TTL := TTL msg - 1\<rparr>) g2 else g2))"

definition cleanup :: "GossipProtocol \<Rightarrow> GossipProtocol" where
  "cleanup g = (if card (seen g) > 10000 then g\<lparr>seen := {}\<rparr> else g)"

definition SetFanout :: "int \<Rightarrow> GossipProtocol \<Rightarrow> GossipProtocol" where
  "SetFanout n g = g\<lparr>fanout := n\<rparr>"

text \<open>
  The steps of an execution: the calls of the public methods, one round of
  \<^verbatim>\<open>processMessages\<close> (which takes the oldest message of the channel, and waits
  when there is none), one goroutine of \<^verbatim>\<open>sendTo\<close> running, and one tick of
  \<^verbatim>\<open>runGossipLoop\<close>.
\<close>

datatype Event =
    EvAddPeer string
  | EvRemovePeer string
  | EvOnMessage MessageType nat
  | EvSetFanout int
  | EvBroadcast string Time Message
  | EvProcess "string list"
  | EvSend nat
  | EvCleanup

fun step :: "Event \<Rightarrow> GossipProtocol \<Rightarrow> GossipProtocol" where
  "step (EvAddPeer sid) g = AddPeer sid g"
| "step (EvRemovePeer sid) g = RemovePeer sid g"
| "step (EvOnMessage t h) g = OnMessage t h g"
| "step (EvSetFanout n) g = SetFanout n g"
| "step (EvBroadcast uuid now msg) g = Broadcast uuid now msg g"
| "step (EvProcess order) g =
     (case msgChan g of
        [] \<Rightarrow> g
      | msg # rest \<Rightarrow> handleMessage order msg (g\<lparr>msgChan := rest\<rparr>))"
| "step (EvSend i) g =
     (if i < length (inflight g)
      then trySend (inflight g ! i) (g\<lparr>inflight := take i (inflight g) @ drop (Suc i) (inflight g)\<rparr>)
      else g)"
| "step EvCleanup g = cleanup g"

fun run :: "Event list \<Rightarrow> GossipProtocol \<Rightarrow> GossipProtocol" where
  "run [] g = g"
| "run (e # es) g = run es (step e g)"

section \<open>Predicates used in the results\<close>

text \<open>Every score of a reputation lies in [0, 100] and the decay rate is not negative.\<close>

definition repInRange :: "Reputation \<Rightarrow> bool" where
  "repInRange rep \<longleftrightarrow>
     0 \<le> Overall rep \<and> Overall rep \<le> 100 \<and>
     0 \<le> Reliability rep \<and> Reliability rep \<le> 100 \<and>
     0 \<le> Quality rep \<and> Quality rep \<le> 100 \<and>
     0 \<le> Cooperation rep \<and> Cooperation rep \<le> 100 \<and>
     0 \<le> Honesty rep \<and> Honesty rep \<le> 100 \<and>
     0 \<le> DecayRate rep"

definition overallIsMean :: "Reputation \<Rightarrow> bool" where
  "overallIsMean rep \<longleftrightarrow>
     Overall rep = (Reliability rep + Quality rep + Cooperation rep + Honesty rep) / 4"

text \<open>The quality of a success and the rating of a peer are fractions in [0, 1].\<close>

fun validOp :: "RegistryOp \<Rightarrow> bool" where
  "validOp (OpSuccess sid q) = (0 \<le> q \<and> q \<le> 1)"
| "validOp (OpFailure sid) = True"
| "validOp (OpPeerRating sid rater rating) = (0 \<le> rating \<and> rating \<le> 1)"
| "validOp OpDecaySweep = True"







text \<open>
  How often the handler registered at position \<open>i\<close> for the message type \<open>t\<close>
  has been called with a message of the id \<open>mid\<close>.
\<close>

definition invocations :: "GossipProtocol \<Rightarrow> MessageType \<Rightarrow> nat \<Rightarrow> string \<Rightarrow> nat" where
  "invocations g t i mid =
     length (filter (\<lambda>(t', i', h, m). t' = t \<and> i' = i \<and> msg_ID m = mid) (invoked g))"

text \<open>No tick of the cleanup in the execution finds more than 10000 ids in the set.\<close>

fun noReset :: "Event list \<Rightarrow> GossipProtocol \<Rightarrow> bool" where
  "noReset [] g = True"
| "noReset (e # es) g = ((e \<noteq> EvCleanup \<or> card (seen g) \<le> 10000) \<and> noReset es (step e g))"

text \<open>
  The invariant behind the deduplication: every message that a handler was called with
  has its id in the seen set, and no handler position was called twice with the same id.
\<close>

definition callKey :: "MessageType \<times> nat \<times> nat \<times> Message \<Rightarrow> MessageType \<times> nat \<times> string" where
  "callKey call = (case call of (t, i, h, m) \<Rightarrow> (t, i, msg_ID m))"

definition dedupInv :: "GossipProtocol \<Rightarrow> bool" where
  "dedupInv g \<longleftrightarrow>
     (\<forall>call \<in> set (invoked g). snd (snd (callKey call)) \<in> seen g)
     \<and> distinct (map callKey (invoked g))"

section \<open>Example values\<close>

definition exampleIdentity :: SquaremindIdentity where
  "exampleIdentity =
     \<lparr> SID = ''sid-1'', PublicKey = [], PrivateKey = [], Name = ''worker'',
       CreatedAt = 0, ParentSID = [], Generation = 0 \<rparr>"

definition exampleAgent :: "AgentState \<Rightarrow> Agent" where
  "exampleAgent s =
     \<lparr> Identity = exampleIdentity, Capabilities = NewCapabilitySet, State = s,
       CurrentTask = None, agent_Reputation = NewReputation 0, StartedAt = 0,
       agent_LastActive = 0 \<rparr>"

definition Day :: Duration where
  "Day = 24 * Hour"

definition exampleKeys :: "error + nat list \<times> nat list" where
  "exampleKeys = Inr (replicate 32 0, replicate 64 0)"

definition exampleRegistry :: ReputationRegistry where
  "exampleRegistry = Register ''agent-1'' (NewReputation 0) NewReputationRegistry"


text \<open>The scenario of three idle agents with one capability each.\<close>

definition agentWith :: "string \<Rightarrow> CapabilityType \<Rightarrow> real \<Rightarrow> Agent" where
  "agentWith sid capType prof =
     \<lparr> Identity = exampleIdentity\<lparr>SID := sid, Name := sid\<rparr>,
       Capabilities = Add NewCapabilitySet \<lparr> cap_Type = capType, Proficiency = prof \<rparr>,
       State = StateIdle, CurrentTask = None, agent_Reputation = NewReputation 0,
       StartedAt = 0, agent_LastActive = 0 \<rparr>"

definition A1 :: Agent where "A1 = agentWith ''A1'' CapCodeWrite 0.8"
definition A2 :: Agent where "A2 = agentWith ''A2'' CapCodeReview 0.7"
definition A3 :: Agent where "A3 = agentWith ''A3'' CapSecurity 0.9"

definition threeAgents :: "(string \<times> Agent) list" where
  "threeAgents = [(''A1'', A1), (''A2'', A2), (''A3'', A3)]"

definition threeRegistry :: ReputationRegistry where
  "threeRegistry =
     Register ''A3'' (NewReputation 0)
       (Register ''A2'' (NewReputation 0)
         (Register ''A1'' (NewReputation 0) NewReputationRegistry))"

definition exampleTask :: "CapabilityType list \<Rightarrow> Task" where
  "exampleTask required =
     \<lparr> task_ID = ''task-1'', Description = ''work'', Requirements = [],
       Complexity = ''medium'', Required = required, Deadline = 0, Reward = 0,
       Status = TaskPending, AssignedTo = [], task_CreatedAt = 0 \<rparr>"

text \<open>A clock that advances between two readings, and one that does not.\<close>

definition tickingClock :: "nat \<Rightarrow> Time" where
  "tickingClock n = 1000 + int n"












text \<open>
  Executions of the gossip protocol with one peer and one handler for available tasks.
  In \<open>replayRun\<close> the message x is handled and forwarded, the cleanup ticks, and
  the forwarded copy is taken from the channel. In \<open>floodRun\<close> 10000 heartbeats
  with distinct ids are broadcast and handled first.
\<close>

definition heartbeat :: Message where
  "heartbeat =
     \<lparr> msg_ID = [], msg_Type = MsgHeartbeat, From = ''p'', Payload = [],
       msg_Timestamp = 0, TTL = 0 \<rparr>"

definition taskMessage :: Message where
  "taskMessage =
     \<lparr> msg_ID = [], msg_Type = MsgTaskAvailable, From = [], Payload = ''task-1'',
       msg_Timestamp = 0, TTL = 0 \<rparr>"

definition setupRun :: "Event list" where
  "setupRun = [EvAddPeer ''p'', EvOnMessage MsgTaskAvailable 7]"

definition replayRun :: "Event list" where
  "replayRun =
     [EvBroadcast ''x'' 0 taskMessage, EvProcess [''p''], EvSend 0, EvCleanup, EvProcess [''p'']]"

definition floodId :: "nat \<Rightarrow> string" where
  "floodId k = replicate (Suc k) (CHR ''h'')"

definition flood :: "string list \<Rightarrow> Event list" where
  "flood ids = concat (map (\<lambda>uuid. [EvBroadcast uuid 0 heartbeat, EvProcess [''p'']]) ids)"

definition floodRun :: "Event list" where
  "floodRun = setupRun @ flood (map floodId [0..<10000]) @ replayRun"

text \<open>No call of another goroutine during the loop.\<close>

definition noOthers :: "nat \<Rightarrow> MarketCall list" where
  "noOthers i = []"






section \<open>Results\<close>

subsection \<open>Agent state machine\<close>

text \<open>
  C8 (as stated, refuted): pause on an agent that is not idle is claimed to fail with
  an invalid-state error. On a working agent the call reports no error.
\<close>

theorem C8_pause_working_reports_no_error:
  "fst (Pause (exampleAgent StateWorking)) \<noteq> Some ErrInvalidState"
  by (simp add: Pause_def)

text \<open>
  C8 (amended): pause on an agent that is not idle reports no error and leaves the
  agent unchanged; pause changes the state exactly when the agent is idle, and then
  the new state is paused.
\<close>

theorem C8_pause_only_from_idle:
  "fst (Pause a) = None
   \<and> (State a \<noteq> StateIdle \<longrightarrow> snd (Pause a) = a)
   \<and> (State a = StateIdle \<longrightarrow> snd (Pause a) = a\<lparr>State := StatePaused\<rparr>)
   \<and> (State (snd (Pause a)) = StatePaused \<longleftrightarrow> State a = StateIdle \<or> State a = StatePaused)"
  by (simp add: Pause_def)

theorem C8_pause_only_from_idle_witness:
  "State (exampleAgent StateWorking) \<noteq> StateIdle
   \<and> snd (Pause (exampleAgent StateWorking)) = exampleAgent StateWorking
   \<and> State (exampleAgent StateIdle) = StateIdle
   \<and> State (snd (Pause (exampleAgent StateIdle))) = StatePaused"
  using C8_pause_only_from_idle [of "exampleAgent StateWorking"]
        C8_pause_only_from_idle [of "exampleAgent StateIdle"]
  by (simp add: exampleAgent_def)

subsection \<open>Reputation\<close>

text \<open>
  C3 (as stated, refuted): after decay the overall score is claimed to equal the mean
  of the four other scores. A fresh reputation that was last active three days ago has
  the mean 50 and, after decay, the overall score 48.5.
\<close>

theorem C3_decay_breaks_mean:
  "Overall (ApplyDecay (3 * Day) (NewReputation 0)) = 48.5
   \<and> (Reliability (ApplyDecay (3 * Day) (NewReputation 0))
      + Quality (ApplyDecay (3 * Day) (NewReputation 0))
      + Cooperation (ApplyDecay (3 * Day) (NewReputation 0))
      + Honesty (ApplyDecay (3 * Day) (NewReputation 0))) / 4 = 50"
  by (simp add: ApplyDecay_def daysSinceActive_def Hours_def NewReputation_def Day_def
      Hour_def Minute_def Second_def)

lemma RecordSuccess_inv:
  "repInRange rep \<Longrightarrow> 0 \<le> q \<Longrightarrow> q \<le> 1 \<Longrightarrow>
     repInRange (RecordSuccess now q rep) \<and> overallIsMean (RecordSuccess now q rep)"
  by (simp add: repInRange_def overallIsMean_def RecordSuccess_def recalculateOverall_def Let_def)

lemma RecordFailure_inv:
  "repInRange rep \<Longrightarrow>
     repInRange (RecordFailure now rep) \<and> overallIsMean (RecordFailure now rep)"
  by (simp add: repInRange_def overallIsMean_def RecordFailure_def recalculateOverall_def Let_def)

lemma decay_scale: 
  fixes x f :: real
  assumes "0 \<le> x" "x \<le> 100" "1/2 \<le> f" "f \<le> 1"
  shows "0 \<le> x * f \<and> x * f \<le> 100"
proof -
  have "x * f \<le> x * 1" using assms by (intro mult_left_mono) auto
  moreover have "0 \<le> x * f" using assms by simp
  ultimately show ?thesis using assms by simp
qed

lemma ApplyDecay_inv: "repInRange rep \<Longrightarrow> repInRange (ApplyDecay now rep)"
proof -
  assume inv: "repInRange rep"
  show ?thesis
  proof (cases "daysSinceActive now rep > 1")
    case False then show ?thesis using inv by (simp add: ApplyDecay_def)
  next
    case True
    define f0 where "f0 = 1 - DecayRate rep * daysSinceActive now rep"
    define f where "f = (if f0 < 0.5 then 0.5 else f0)"
    have "0 \<le> DecayRate rep * daysSinceActive now rep"
      using inv True by (simp add: repInRange_def)
    then have f: "1/2 \<le> f" "f \<le> 1" by (auto simp: f_def f0_def)
    have eq: "ApplyDecay now rep = rep\<lparr>Overall := Overall rep * f\<rparr>"
      using True by (simp add: ApplyDecay_def Let_def f_def f0_def)
    have "0 \<le> Overall rep * f \<and> Overall rep * f \<le> 100"
      using inv f by (intro decay_scale) (simp_all add: repInRange_def)
    then show ?thesis using inv by (simp add: eq repInRange_def)
  qed
qed

lemma PeerRating_inv:
  assumes "repInRange rep" "repInRange rater" "0 \<le> rating" "rating \<le> 1"
  shows "0 \<le> Cooperation rep * 0.9 + rating * 100 * 0.1 * (Overall rater / 100)
       \<and> Cooperation rep * 0.9 + rating * 100 * 0.1 * (Overall rater / 100) \<le> 100"
proof -
  have w: "0 \<le> Overall rater / 100" "Overall rater / 100 \<le> 1"
    using assms(2) by (simp_all add: repInRange_def)
  have "rating * (Overall rater / 100) \<le> 1 * 1"
    using assms(3,4) w by (intro mult_mono) auto
  moreover have "0 \<le> rating * (Overall rater / 100)" using assms(3) w by simp
  moreover have "0 \<le> Cooperation rep" "Cooperation rep \<le> 100"
    using assms(1) by (simp_all add: repInRange_def)
  ultimately show ?thesis by simp
qed

text \<open>
  C3 (amended): on a registry whose reputations have all scores in [0, 100], after a
  success with a quality in [0, 1], a failure, a peer rating in [0, 1] or a decay sweep
  every stored reputation still has all scores, the overall score included, in
  [0, 100]; a reputation changed by a success, a failure or a peer rating has an overall
  score equal to the mean of reliability, quality, cooperation and honesty.
\<close>

theorem C3_overall_range_and_mean:
  assumes inv: "\<forall>s rep. scores r s = Some rep \<longrightarrow> repInRange rep"
    and op: "validOp op"
    and after: "scores (applyOp now op r) sid = Some rep'"
  shows "repInRange rep' \<and>
         (op \<noteq> OpDecaySweep \<and> scores r sid \<noteq> Some rep' \<longrightarrow> overallIsMean rep')"
proof (cases op)
  case (OpSuccess s q)
  then show ?thesis using inv op after RecordSuccess_inv
    by (auto simp: RecordTaskSuccess_def Let_def split: option.splits if_splits)
next
  case (OpFailure s)
  then show ?thesis using inv op after RecordFailure_inv
    by (auto simp: RecordTaskFailure_def Let_def split: option.splits if_splits)
next
  case (OpPeerRating s rater rating)
  show ?thesis
  proof (cases "scores r sid = Some rep'")
    case True then show ?thesis using inv by simp
  next
    case False
    with after OpPeerRating obtain rep raterRep where
      h: "scores r s = Some rep" "scores r rater = Some raterRep" "\<not> Overall raterRep < 30" "sid = s"
      and rep': "rep' = rep\<lparr>Cooperation := Cooperation rep * 0.9 + rating * 100 * 0.1 * (Overall raterRep / 100),
           Overall := (Reliability rep + Quality rep + (Cooperation rep * 0.9 + rating * 100 * 0.1 * (Overall raterRep / 100)) + Honesty rep) / 4\<rparr>"
      by (auto simp: RecordPeerRating_def Let_def split: option.splits if_splits)
    have r1: "repInRange rep" and r2: "repInRange raterRep" using inv h by auto
    have c: "0 \<le> Cooperation rep * 0.9 + rating * 100 * 0.1 * (Overall raterRep / 100)
       \<and> Cooperation rep * 0.9 + rating * 100 * 0.1 * (Overall raterRep / 100) \<le> 100"
      using PeerRating_inv[OF r1 r2] op OpPeerRating by simp
    show ?thesis using c r1 by (simp add: rep' repInRange_def overallIsMean_def)
  qed
next
  case OpDecaySweep
  then show ?thesis using inv after ApplyDecay_inv
    by (auto simp: ApplyDecayAll_def split: option.splits)
qed


theorem C3_overall_range_and_mean_witness:
  "scores exampleRegistry = [''agent-1'' \<mapsto> NewReputation 0]
   \<and> repInRange (NewReputation 0)
   \<and> validOp (OpSuccess ''agent-1'' 0.8)
   \<and> scores (applyOp 5 (OpSuccess ''agent-1'' 0.8) exampleRegistry) ''agent-1''
       = Some (RecordSuccess 5 0.8 (NewReputation 0))
   \<and> scores exampleRegistry ''agent-1'' \<noteq> Some (RecordSuccess 5 0.8 (NewReputation 0))
   \<and> repInRange (RecordSuccess 5 0.8 (NewReputation 0))
   \<and> overallIsMean (RecordSuccess 5 0.8 (NewReputation 0))"
proof -
  have inv: "\<forall>s rep. scores exampleRegistry s = Some rep \<longrightarrow> repInRange rep"
    by (simp add: exampleRegistry_def Register_def NewReputationRegistry_def
        NewReputation_def repInRange_def)
  have op: "validOp (OpSuccess ''agent-1'' 0.8)" by simp
  have after: "scores (applyOp 5 (OpSuccess ''agent-1'' 0.8) exampleRegistry) ''agent-1''
       = Some (RecordSuccess 5 0.8 (NewReputation 0))"
    by (simp add: exampleRegistry_def Register_def NewReputationRegistry_def
        RecordTaskSuccess_def Let_def)
  have changed: "scores exampleRegistry ''agent-1'' \<noteq> Some (RecordSuccess 5 0.8 (NewReputation 0))"
    by (simp add: exampleRegistry_def Register_def NewReputationRegistry_def
        RecordSuccess_def NewReputation_def recalculateOverall_def Let_def)
  have stored: "scores exampleRegistry = [''agent-1'' \<mapsto> NewReputation 0]"
    by (simp add: exampleRegistry_def Register_def NewReputationRegistry_def)
  have fresh: "repInRange (NewReputation 0)"
    by (simp add: NewReputation_def repInRange_def)
  show ?thesis
    using C3_overall_range_and_mean [OF inv op after] stored fresh op after changed by blast
qed



subsection \<open>History of the registry\<close>

lemma success_history_bounded:
  "scores r sid \<noteq> None \<Longrightarrow> length (historyOf (RecordTaskSuccess now sid q r) sid) \<le> 100"
  by (auto simp: RecordTaskSuccess_def Let_def historyOf_def split: option.splits)

lemma failure_keeps_registered:
  "scores r sid \<noteq> None \<Longrightarrow> scores (RecordTaskFailure now sid r) sid \<noteq> None"
  by (auto simp: RecordTaskFailure_def Let_def split: option.splits)

lemma failure_history_length:
  "scores r sid \<noteq> None \<Longrightarrow>
     length (historyOf (RecordTaskFailure now sid r) sid) = Suc (length (historyOf r sid))"
  by (auto simp: RecordTaskFailure_def Let_def historyOf_def split: option.splits)

lemma failures_history_length:
  "scores r sid \<noteq> None \<Longrightarrow>
     scores ((RecordTaskFailure now sid ^^ n) r) sid \<noteq> None
     \<and> length (historyOf ((RecordTaskFailure now sid ^^ n) r) sid) = length (historyOf r sid) + n"
  by (induction n) (simp_all add: failure_keeps_registered failure_history_length)

text \<open>
  C7 (the code departs from the claim): the history of an agent is claimed never to
  exceed 100 entries. \<^verbatim>\<open>RecordTaskSuccess\<close> truncates the history to its last
  100 entries, \<^verbatim>\<open>RecordTaskFailure\<close> appends without truncating: after 101
  recorded failures the history of a registered agent holds 101 entries.
\<close>

theorem C7_failures_exceed_bound:
  "length (GetHistory ((RecordTaskFailure 0 ''agent-1'' ^^ 101) exampleRegistry) ''agent-1'') = 101"
proof -
  have reg: "scores exampleRegistry ''agent-1'' \<noteq> None"
    by (simp add: exampleRegistry_def Register_def)
  have h0: "historyOf exampleRegistry ''agent-1'' = []"
    by (simp add: exampleRegistry_def Register_def historyOf_def)
  have "length (historyOf ((RecordTaskFailure 0 ''agent-1'' ^^ 101) exampleRegistry) ''agent-1'')
          = length (historyOf exampleRegistry ''agent-1'') + 101"
    using failures_history_length [OF reg, where now = 0 and n = 101] by (rule conjunct2)
  then show ?thesis by (simp add: GetHistory_def h0)
qed

subsection \<open>Identity\<close>

text \<open>
  C9 (the code departs from the claim): a root identity has generation 0 and its child
  generation 1, but the child of that child, whose generation is claimed to be 2, is
  created with generation 1: the generation is 1 for every non-empty parent id.
\<close>

theorem C9_grandchild_generation:
  "map_sum id Generation
     (NewSquaremindIdentity ''root'' [] exampleKeys ''sid-root'' 0) = Inr 0
   \<and> map_sum id Generation
     (NewSquaremindIdentity ''child'' ''sid-root'' exampleKeys ''sid-child'' 1) = Inr 1
   \<and> map_sum id Generation
     (NewSquaremindIdentity ''grandchild'' ''sid-child'' exampleKeys ''sid-grandchild'' 2) = Inr 1"
  by (simp add: NewSquaremindIdentity_def exampleKeys_def)

subsection \<open>Task market\<close>























lemma bidLoop_no_qualified:
  "(\<forall>(sid, a) \<in> set agents. MatchScore (Capabilities a) (Required task) \<le> 0.5) \<Longrightarrow>
     bidLoop clock noOthers task agents i n m = m"
  by (induction clock noOthers task agents i n m rule: bidLoop.induct)
     (auto simp: Let_def noOthers_def doCalls_def)

lemma three_scores:
  "MatchScore (Capabilities A1) [CapSecurity, CapCodeWrite] = 0.4"
  "MatchScore (Capabilities A2) [CapSecurity, CapCodeWrite] = 0"
  "MatchScore (Capabilities A3) [CapSecurity, CapCodeWrite] = 0.45"
  by (simp_all add: A1_def A2_def A3_def agentWith_def MatchScore_def Get_def Add_def
      NewCapabilitySet_def)

text \<open>
  C4 (amended): with the three idle agents, in whatever order the map yields them, and
  no call of another goroutine during the assignment, a task that requires security and
  code.write gives the match scores 0.4 for A1, 0.45 for A3 and 0 for A2; no agent has a
  score above 0.5, so no bid is placed and the assignment fails with the error of no
  bids.
\<close>

theorem C4_no_agent_qualifies:
  assumes "set agents \<subseteq> set threeAgents"
  shows "MatchScore (Capabilities A1) [CapSecurity, CapCodeWrite] = 0.4
     \<and> MatchScore (Capabilities A3) [CapSecurity, CapCodeWrite] = 0.45
     \<and> MatchScore (Capabilities A2) [CapSecurity, CapCodeWrite] = 0
     \<and> GetBids (snd (AssignTask sortSlice clock noOthers [] (exampleTask [CapSecurity, CapCodeWrite])
                  agents threeRegistry NewTaskMarket)) ''task-1'' = []
     \<and> fst (AssignTask sortSlice clock noOthers [] (exampleTask [CapSecurity, CapCodeWrite])
                  agents threeRegistry NewTaskMarket) = Inl ErrNoBids"
proof -
  let ?task = "exampleTask [CapSecurity, CapCodeWrite]"
  have "\<forall>(sid, a) \<in> set threeAgents. MatchScore (Capabilities a) (Required ?task) \<le> 0.5"
    by (simp add: threeAgents_def exampleTask_def three_scores)
  then have "\<forall>(sid, a) \<in> set agents. MatchScore (Capabilities a) (Required ?task) \<le> 0.5"
    using assms by blast
  then have loop: "bidLoop clock noOthers ?task agents i n m = m" for i n m
    by (rule bidLoop_no_qualified)
  have tid: "task_ID ?task = ''task-1''"
    by (simp add: exampleTask_def)
  have lt: "ListTask ?task NewTaskMarket
          = (None, NewTaskMarket\<lparr>listings := [''task-1'' \<mapsto> ?task],
                                 bids := [''task-1'' \<mapsto> []]\<rparr>)"
    by (simp add: ListTask_def NewTaskMarket_def tid)
  have "AssignTask sortSlice clock noOthers [] ?task agents threeRegistry NewTaskMarket
          = (Inl ErrNoBids,
             NewTaskMarket\<lparr>listings := [''task-1'' \<mapsto> ?task], bids := [''task-1'' \<mapsto> []]\<rparr>)"
    by (simp add: AssignTask_def lt loop tid doCalls_def selectBestBid_def GetBids_def)
  then show ?thesis by (simp add: three_scores GetBids_def)
qed

text \<open>
  The same scenario with the agents yielded in the order A3, A1, A2.
\<close>

theorem C4_no_agent_qualifies_witness:
  "set [(''A3'', A3), (''A1'', A1), (''A2'', A2)] \<subseteq> set threeAgents
   \<and> fst (AssignTask insertionSortLessFunc tickingClock noOthers []
            (exampleTask [CapSecurity, CapCodeWrite])
            [(''A3'', A3), (''A1'', A1), (''A2'', A2)] threeRegistry NewTaskMarket) = Inl ErrNoBids"
proof -
  have sub: "set [(''A3'', A3), (''A1'', A1), (''A2'', A2)] \<subseteq> set threeAgents"
    by (simp add: threeAgents_def)
  show ?thesis
    using C4_no_agent_qualifies [OF sub, of insertionSortLessFunc tickingClock] sub by blast
qed

text \<open>
  C4 (as stated, refuted): A3 is claimed to be assigned the task. The assignment
  returns the error of no bids.
\<close>

theorem C4_A3_is_not_assigned:
  "fst (AssignTask insertionSortLessFunc tickingClock noOthers []
          (exampleTask [CapSecurity, CapCodeWrite])
          threeAgents threeRegistry NewTaskMarket) = Inl ErrNoBids"
  by (simp add: AssignTask_def ListTask_def NewTaskMarket_def threeAgents_def GetState_def
      A1_def A2_def A3_def agentWith_def MatchScore_def Get_def Add_def NewCapabilitySet_def
      noOthers_def doCalls_def
      exampleTask_def selectBestBid_def GetBids_def Let_def)



subsection \<open>Consensus\<close>










subsection \<open>Gossip\<close>

lemma sends_keep:
  "seen (foldl (\<lambda>g' sid. sendTo sid msg g') g targets) = seen g
   \<and> invoked (foldl (\<lambda>g' sid. sendTo sid msg g') g targets) = invoked g"
  by (induction targets arbitrary: g) (simp_all add: sendTo_def)

lemma forward_keeps:
  "seen (forward order msg g) = seen g \<and> invoked (forward order msg g) = invoked g"
  by (simp add: forward_def Let_def sends_keep)

lemma trySend_keeps:
  "seen (trySend msg g) = seen g \<and> invoked (trySend msg g) = invoked g"
  by (simp add: trySend_def)

lemma new_calls_distinct:
  "distinct (map callKey (map (\<lambda>(i, h). (t, i, h, m)) (zip [0..<length hs] hs)))"
proof -
  have "map callKey (map (\<lambda>(i, h). (t, i, h, m)) (zip [0..<length hs] hs))
          = map (\<lambda>i. (t, i, msg_ID m)) [0..<length hs]"
    by (rule nth_equalityI) (simp_all add: callKey_def)
  then show ?thesis by (simp add: distinct_map inj_on_def)
qed

lemma handleMessage_inv:
  assumes "dedupInv g"
  shows "dedupInv (handleMessage order msg g)"
proof (cases "msg_ID msg \<in> seen g")
  case True
  then show ?thesis using assms by (simp add: handleMessage_def)
next
  case False
  define new where
    "new = map (\<lambda>(i, h). (msg_Type msg, i, h, msg))
             (zip [0..<length (handlers g (msg_Type msg))] (handlers g (msg_Type msg)))"
  have seen': "seen (handleMessage order msg g) = insert (msg_ID msg) (seen g)"
    and inv': "invoked (handleMessage order msg g) = invoked g @ new"
    using False by (simp_all add: handleMessage_def Let_def forward_keeps new_def)
  have newid: "\<forall>call \<in> set new. snd (snd (callKey call)) = msg_ID msg"
    by (auto simp: new_def callKey_def dest!: set_zip_leftD)
  have oldid: "\<forall>call \<in> set (invoked g). snd (snd (callKey call)) \<in> seen g"
    and olddist: "distinct (map callKey (invoked g))"
    using assms by (simp_all add: dedupInv_def)
  have "callKey ` set (invoked g) \<inter> callKey ` set new = {}"
  proof (rule ccontr)
    assume "callKey ` set (invoked g) \<inter> callKey ` set new \<noteq> {}"
    then obtain k where "k \<in> callKey ` set (invoked g)" "k \<in> callKey ` set new"
      by blast
    then obtain a b where "a \<in> set (invoked g)" "b \<in> set new" "callKey a = callKey b"
      by (metis imageE)
    then have "msg_ID msg \<in> seen g" using newid oldid by metis
    then show False using False by simp
  qed
  moreover have "distinct (map callKey new)"
    unfolding new_def by (rule new_calls_distinct)
  ultimately have "distinct (map callKey (invoked g @ new))"
    using olddist by simp
  moreover have "\<forall>call \<in> set (invoked g @ new). snd (snd (callKey call)) \<in> insert (msg_ID msg) (seen g)"
    using newid oldid by auto
  ultimately show ?thesis by (simp add: dedupInv_def seen' inv')
qed

lemma step_inv:
  assumes "dedupInv g" "e \<noteq> EvCleanup \<or> card (seen g) \<le> 10000"
  shows "dedupInv (step e g)"
proof (cases e)
  case (EvProcess order)
  show ?thesis
  proof (cases "msgChan g")
    case Nil
    then show ?thesis using assms EvProcess by simp
  next
    case (Cons msg rest)
    have "dedupInv (g\<lparr>msgChan := rest\<rparr>)" using assms(1) by (simp add: dedupInv_def)
    then show ?thesis using EvProcess Cons by (simp add: handleMessage_inv)
  qed
next
  case (EvSend i)
  then show ?thesis using assms(1) by (simp add: dedupInv_def trySend_keeps)
next
  case (EvBroadcast uuid now msg)
  then show ?thesis using assms(1) by (simp add: dedupInv_def Broadcast_def Let_def trySend_keeps)
next
  case EvCleanup
  then show ?thesis using assms by (simp add: cleanup_def)
qed (use assms(1) in \<open>simp_all add: dedupInv_def AddPeer_def RemovePeer_def OnMessage_def SetFanout_def\<close>)

lemma run_inv:
  "dedupInv g \<Longrightarrow> noReset es g \<Longrightarrow> dedupInv (run es g)"
  by (induction es arbitrary: g) (simp_all add: step_inv)

lemma distinct_key_count:
  "distinct (map f xs) \<Longrightarrow> length (filter (\<lambda>x. f x = k) xs) \<le> 1"
proof (induction xs)
  case Nil
  then show ?case by simp
next
  case (Cons x xs)
  show ?case
  proof (cases "f x = k")
    case True
    have "f y \<noteq> k" if "y \<in> set xs" for y
      using Cons.prems True that by (metis distinct.simps(2) image_eqI list.simps(9) set_map)
    then have "filter (\<lambda>x. f x = k) xs = []"
      by (simp add: filter_empty_conv)
    then show ?thesis using True by simp
  next
    case False
    then show ?thesis using Cons by simp
  qed
qed

text \<open>
  C6 (amended): in every execution of the gossip protocol from its initial state in
  which no tick of the cleanup finds more than 10000 ids in the seen set (so that the
  set is never reset), each registered handler is called at most once for each
  message id, whatever is broadcast, forwarded and delivered.
\<close>

theorem C6_at_most_once_without_reset:
  assumes "noReset es NewGossipProtocol"
  shows "invocations (run es NewGossipProtocol) t i mid \<le> 1"
proof -
  have "dedupInv NewGossipProtocol"
    by (simp add: dedupInv_def NewGossipProtocol_def)
  then have "dedupInv (run es NewGossipProtocol)"
    using assms by (rule run_inv)
  then have "distinct (map callKey (invoked (run es NewGossipProtocol)))"
    by (simp add: dedupInv_def)
  then have "length (filter (\<lambda>call. callKey call = (t, i, mid)) (invoked (run es NewGossipProtocol))) \<le> 1"
    by (rule distinct_key_count)
  moreover have "(\<lambda>call. callKey call = (t, i, mid))
      = (\<lambda>(t', i', h, m). t' = t \<and> i' = i \<and> msg_ID m = mid)"
    by (auto simp: callKey_def fun_eq_iff)
  ultimately show ?thesis by (simp add: invocations_def)
qed

lemma small_run:
  "run (setupRun @ replayRun) NewGossipProtocol =
     NewGossipProtocol\<lparr>peers := {''p''}, handlers := (\<lambda>t. [])(MsgTaskAvailable := [7]),
        seen := {''x''},
        invoked := [(MsgTaskAvailable, 0, 7, taskMessage\<lparr>msg_ID := ''x'', TTL := 10\<rparr>)]\<rparr>"
  by (simp add: setupRun_def replayRun_def NewGossipProtocol_def AddPeer_def OnMessage_def
      Broadcast_def trySend_def taskMessage_def handleMessage_def
      forward_def sendTo_def cleanup_def Let_def)

text \<open>
  An execution in which the message x is handled, its forwarded copy is delivered after
  a tick of the cleanup that finds one id, and the copy is dropped: the handler is
  called once.
\<close>

theorem C6_at_most_once_without_reset_witness:
  "noReset (setupRun @ replayRun) NewGossipProtocol
   \<and> invocations (run (setupRun @ replayRun) NewGossipProtocol) MsgTaskAvailable 0 ''x'' = 1"
proof -
  have nr: "noReset (setupRun @ replayRun) NewGossipProtocol"
    by (simp add: setupRun_def replayRun_def NewGossipProtocol_def AddPeer_def OnMessage_def
      Broadcast_def trySend_def taskMessage_def handleMessage_def
      forward_def sendTo_def cleanup_def Let_def)
  have "invocations (run (setupRun @ replayRun) NewGossipProtocol) MsgTaskAvailable 0 ''x'' \<ge> 1"
    by (simp add: small_run invocations_def)
  then show ?thesis
    using C6_at_most_once_without_reset [OF nr, of MsgTaskAvailable 0 "''x''"] nr by simp
qed

lemma run_append: "run (es @ fs) g = run fs (run es g)"
  by (induction es arbitrary: g) simp_all

lemma setup_state:
  "run setupRun NewGossipProtocol =
     NewGossipProtocol\<lparr>peers := {''p''}, handlers := (\<lambda>t. [])(MsgTaskAvailable := [7])\<rparr>"
  by (simp add: setupRun_def NewGossipProtocol_def AddPeer_def OnMessage_def)

lemma heartbeat_step:
  assumes "msgChan g = []" "handlers g MsgHeartbeat = []"
  shows "run [EvBroadcast uuid 0 heartbeat, EvProcess [''p'']] g = g\<lparr>seen := insert uuid (seen g)\<rparr>"
  using assms
  by (simp add: Broadcast_def trySend_def heartbeat_def handleMessage_def forward_def Let_def
      insert_absorb)

lemma flood_state:
  assumes "msgChan g = []" "handlers g MsgHeartbeat = []"
  shows "run (flood ids) g = g\<lparr>seen := seen g \<union> set ids\<rparr>"
  using assms
proof (induction ids arbitrary: g)
  case Nil
  then show ?case by (simp add: flood_def)
next
  case (Cons uuid ids)
  have "run (flood (uuid # ids)) g
          = run (flood ids) (run [EvBroadcast uuid 0 heartbeat, EvProcess [''p'']] g)"
    by (simp only: flood_def list.map concat.simps append.simps run.simps)
  also have "\<dots> = run (flood ids) (g\<lparr>seen := insert uuid (seen g)\<rparr>)"
    using Cons.prems by (simp only: heartbeat_step)
  also have "\<dots> = g\<lparr>seen := insert uuid (seen g), seen := seen (g\<lparr>seen := insert uuid (seen g)\<rparr>) \<union> set ids\<rparr>"
    using Cons.prems by (subst Cons.IH) simp_all
  finally show ?case by simp
qed

lemma flood_ids_card: "card (insert ''x'' (set (map floodId [0..<n]))) = Suc n"
proof -
  have inj: "inj_on floodId {0..<n}"
    by (rule inj_onI) (simp add: floodId_def)
  have "''x'' \<notin> floodId ` {0..<n}" by (auto simp: floodId_def Cons_replicate_eq)
  then show ?thesis using inj by (simp add: card_image)
qed

lemma replay_state:
  assumes "msgChan g = []" "inflight g = []" "handlers g MsgTaskAvailable = [7]"
    "peers g = {''p''}" "fanout g = 3" "''x'' \<notin> seen g" "card (insert ''x'' (seen g)) > 10000"
  shows "invoked (run replayRun g) =
     invoked g @ [(MsgTaskAvailable, 0, 7, taskMessage\<lparr>msg_ID := ''x'', TTL := 10\<rparr>),
                  (MsgTaskAvailable, 0, 7, taskMessage\<lparr>msg_ID := ''x'', TTL := 9\<rparr>)]"
  using assms
  by (simp add: replayRun_def Broadcast_def trySend_def taskMessage_def handleMessage_def
      forward_def sendTo_def cleanup_def Let_def)

text \<open>
  C6 (as stated, refuted): the deduplication is claimed to hold across the eviction of
  the seen set. After 10000 heartbeats and the message x have been handled, the cleanup
  finds 10001 ids and resets the set; the forwarded copy of x, still on its way, is then
  handled again, and the handler has been called twice for the id x.
\<close>

theorem C6_handler_invoked_twice:
  "invocations (run floodRun NewGossipProtocol) MsgTaskAvailable 0 ''x'' = 2"
proof -
  define g0 where "g0 = run setupRun NewGossipProtocol"
  define g1 where "g1 = run (flood (map floodId [0..<10000])) g0"
  have f0: "msgChan g0 = []" "inflight g0 = []" "handlers g0 MsgHeartbeat = []"
    "handlers g0 MsgTaskAvailable = [7]" "peers g0 = {''p''}" "fanout g0 = 3"
    "seen g0 = {}" "invoked g0 = []"
    unfolding g0_def setup_state by (simp_all add: NewGossipProtocol_def)
  have g1: "g1 = g0\<lparr>seen := seen g0 \<union> set (map floodId [0..<10000])\<rparr>"
    unfolding g1_def by (rule flood_state) (rule f0)+
  have f1: "msgChan g1 = []" "inflight g1 = []" "handlers g1 MsgTaskAvailable = [7]"
    "peers g1 = {''p''}" "fanout g1 = 3" "invoked g1 = []"
    "seen g1 = set (map floodId [0..<10000])"
    unfolding g1 by (simp_all add: f0)
  have fresh: "''x'' \<notin> seen g1"
    unfolding f1 by (auto simp: floodId_def Cons_replicate_eq)
  have "card (insert ''x'' (seen g1)) = Suc 10000"
    unfolding f1 by (rule flood_ids_card)
  then have big: "card (insert ''x'' (seen g1)) > 10000"
    by simp
  have "invoked (run replayRun g1) =
     invoked g1 @ [(MsgTaskAvailable, 0, 7, taskMessage\<lparr>msg_ID := ''x'', TTL := 10\<rparr>),
                  (MsgTaskAvailable, 0, 7, taskMessage\<lparr>msg_ID := ''x'', TTL := 9\<rparr>)]"
    by (rule replay_state [OF f1(1) f1(2) f1(3) f1(4) f1(5) fresh big])
  moreover have "run floodRun NewGossipProtocol = run replayRun g1"
    by (simp only: floodRun_def run_append g0_def g1_def)
  ultimately have "invoked (run floodRun NewGossipProtocol) =
     [(MsgTaskAvailable, 0, 7, taskMessage\<lparr>msg_ID := ''x'', TTL := 10\<rparr>),
      (MsgTaskAvailable, 0, 7, taskMessage\<lparr>msg_ID := ''x'', TTL := 9\<rparr>)]"
    by (simp add: f1)
  then show ?thesis by (simp add: invocations_def)
qed

end
